theory Spec2Isabelle
  imports Main
begin

section \<open>Data model\<close>

text \<open>
  The wrapper layers of tfjs-layers (\<^verbatim>\<open>layers/wrappers.ts\<close>): the abstract
  \<^verbatim>\<open>Wrapper\<close>, \<^verbatim>\<open>TimeDistributed\<close> and \<^verbatim>\<open>Bidirectional\<close>.
  Objects are records, a mutating method takes the object and returns it updated, and a
  \<^verbatim>\<open>throw\<close> is a value of type \<open>error\<close>. A method that can throw after it has
  mutated the object returns the object as the throw leaves it, paired with the outcome.
\<close>

subsection \<open>Shapes, tensors, errors\<close>

text \<open>
  \<^verbatim>\<open>Shape\<close> is an array of numbers in which \<^verbatim>\<open>null\<close> stands for an unresolved
  dimension. Reading a JavaScript array out of range gives \<^verbatim>\<open>undefined\<close>, so a
  dimension has that third value too.
\<close>

datatype dim = Num int | Null | Undefined

type_synonym Shape = "dim list"

text \<open>\<^verbatim>\<open>xs[i]\<close> on a \<^verbatim>\<open>Shape\<close>.\<close>

definition at :: "Shape \<Rightarrow> nat \<Rightarrow> dim" where
  "at xs i = (if i < length xs then xs ! i else Undefined)"

text \<open>
  A value of type \<^verbatim>\<open>Shape|Shape[]\<close>, the argument of \<^verbatim>\<open>build\<close> and
  \<^verbatim>\<open>computeOutputShape\<close>.
\<close>

datatype shapes = OneShape Shape | ManyShapes "Shape list"

text \<open>
  A tensor is either concrete or a symbolic placeholder (\<^verbatim>\<open>SymbolicTensor\<close>); both carry
  a shape. The numeric content is never inspected by the wrappers: \<open>tid\<close> identifies it.
\<close>

datatype tensor =
    Tensor (shape: Shape) (tid: nat)
  | SymbolicTensor (shape: Shape) (tid: nat)

fun instanceof_SymbolicTensor :: "tensor \<Rightarrow> bool" where
  "instanceof_SymbolicTensor (SymbolicTensor _ _) = True"
| "instanceof_SymbolicTensor (Tensor _ _) = False"

text \<open>
  \<^verbatim>\<open>ValueError\<close> and \<^verbatim>\<open>NotImplementedError\<close> are the two error classes of
  \<^verbatim>\<open>../errors\<close> that the file throws, each with its message. \<open>TypeError\<close> is what
  JavaScript raises on a property read of \<^verbatim>\<open>undefined\<close>.
\<close>

datatype error = ValueError string | NotImplementedError string | TypeError string

datatype InputSpec = InputSpec (spec_ndim: "nat option") (spec_shape: "Shape option")

subsection \<open>JSON.stringify on a shape\<close>

definition digit :: "nat \<Rightarrow> char" where
  "digit d = ''0123456789'' ! d"

fun decimal :: "nat \<Rightarrow> string" where
  "decimal n = (if n < 10 then [digit n] else decimal (n div 10) @ [digit (n mod 10)])"

declare decimal.simps [simp del]

definition stringify_int :: "int \<Rightarrow> string" where
  "stringify_int i = (if i < 0 then CHR ''-'' # decimal (nat (- i)) else decimal (nat i))"

text \<open>Inside an array, \<^verbatim>\<open>JSON.stringify\<close> prints \<^verbatim>\<open>null\<close> and \<^verbatim>\<open>undefined\<close> as \<^verbatim>\<open>null\<close>.\<close>

fun stringify_dim :: "dim \<Rightarrow> string" where
  "stringify_dim (Num i) = stringify_int i"
| "stringify_dim Null = ''null''"
| "stringify_dim Undefined = ''null''"

fun join_commas :: "string list \<Rightarrow> string" where
  "join_commas [] = []"
| "join_commas [s] = s"
| "join_commas (s # t # ss) = s @ '','' @ join_commas (t # ss)"

definition JSON_stringify :: "Shape \<Rightarrow> string" where
  "JSON_stringify s = ''['' @ join_commas (map stringify_dim s) @ '']''"

subsection \<open>Layers\<close>

text \<open>
  The fields of the external base class \<^verbatim>\<open>Layer\<close> that the wrappers read or write,
  together with those of a recurrent layer (\<^verbatim>\<open>RNN\<close>): \<open>returnSequences\<close>,
  \<open>returnState\<close>, \<open>goBackwards\<close> and \<open>stateSpec\<close>. \<^verbatim>\<open>Bidirectional\<close> has private
  fields \<open>returnSequences\<close> and \<open>returnState\<close> of its own, and its \<^verbatim>\<open>_stateful\<close> is
  the base class's field; on a wrapper object these three record fields are those.
  \<open>weights\<close> holds the current values of the layer's variables.
\<close>

record Layer =
  name :: string
  trainable :: bool
  built :: bool
  inputSpec :: "InputSpec list"
  supportsMasking :: bool
  weights :: "tensor list"
  stateful :: bool
  returnSequences :: bool
  returnState :: bool
  goBackwards :: bool
  stateSpec :: "InputSpec list"

text \<open>
  \<^verbatim>\<open>Wrapper\<close> adds the reference to the wrapped layer. The field is \<^verbatim>\<open>undefined\<close>
  (\<open>None\<close>) until the constructor assigns it, which is why the \<^verbatim>\<open>trainable\<close> accessors
  test it.
\<close>

record Wrapper = Layer +
  layer :: "Layer option"

subsection \<open>Wrapper\<close>

text \<open>\<^verbatim>\<open>Wrapper.build\<close> (lines 62-64).\<close>

definition Wrapper_build :: "'a Wrapper_scheme \<Rightarrow> shapes \<Rightarrow> 'a Wrapper_scheme" where
  "Wrapper_build this inputShape = this\<lparr>built := True\<rparr>"

text \<open>The \<^verbatim>\<open>trainable\<close> getter and setter of \<^verbatim>\<open>Wrapper\<close> (lines 68-86).\<close>

definition Wrapper_trainable :: "'a Wrapper_scheme \<Rightarrow> bool" where
  "Wrapper_trainable this = (case layer this of Some l \<Rightarrow> trainable l | None \<Rightarrow> False)"

definition Wrapper_set_trainable :: "'a Wrapper_scheme \<Rightarrow> bool \<Rightarrow> 'a Wrapper_scheme" where
  "Wrapper_set_trainable this v =
     (case layer this of
        Some l \<Rightarrow> this\<lparr>layer := Some (l\<lparr>trainable := v\<rparr>)\<rparr>
      | None \<Rightarrow> this)"

subsection \<open>TimeDistributed\<close>

text \<open>
  \<^verbatim>\<open>TimeDistributed.build\<close> (lines 195-209). \<open>getExactlyOneShape\<close> (of
  \<^verbatim>\<open>../utils/types_utils\<close>) and the wrapped layer's own \<open>build\<close> are external and are
  parameters. The result is the wrapper as the method leaves it and the error thrown, if
  any.
\<close>

definition TimeDistributed_build ::
  "(shapes \<Rightarrow> error + Shape) \<Rightarrow> (Layer \<Rightarrow> Shape \<Rightarrow> Layer \<times> error option) \<Rightarrow>
   Wrapper \<Rightarrow> shapes \<Rightarrow> Wrapper \<times> error option" where
  "TimeDistributed_build getExactlyOneShape layer_build this inputShape0 =
     (case getExactlyOneShape inputShape0 of
        Inl e \<Rightarrow> (this, Some e)
      | Inr inputShape \<Rightarrow>
          if length inputShape < 3 then
            (this, Some (ValueError
               (''TimeDistributed layer expects an input shape >= 3D, but received '' @
                ''input shape '' @ JSON_stringify inputShape)))
          else
            let this1 = this\<lparr>inputSpec := [InputSpec None (Some inputShape)]\<rparr>;
                childInputShape = [at inputShape 0] @ drop 2 inputShape
            in (case layer this1 of
                  None \<Rightarrow> (this1, Some (TypeError ''this.layer is undefined''))
                | Some l \<Rightarrow>
                    if \<not> built l then
                      (case layer_build l childInputShape of
                         (l1, Some e) \<Rightarrow> (this1\<lparr>layer := Some l1\<rparr>, Some e)
                       | (l1, None) \<Rightarrow>
                           (Wrapper_build (this1\<lparr>layer := Some (l1\<lparr>built := True\<rparr>)\<rparr>)
                              (OneShape inputShape), None))
                    else (Wrapper_build this1 (OneShape inputShape), None)))"

text \<open>
  \<^verbatim>\<open>TimeDistributed.computeOutputShape\<close> (lines 211-218). The wrapped layer's
  \<open>computeOutputShape\<close> is a parameter; its result is cast to \<^verbatim>\<open>Shape\<close> by the source.
\<close>

definition TimeDistributed_computeOutputShape ::
  "(shapes \<Rightarrow> error + Shape) \<Rightarrow> (Layer \<Rightarrow> Shape \<Rightarrow> error + Shape) \<Rightarrow>
   Wrapper \<Rightarrow> shapes \<Rightarrow> error + Shape" where
  "TimeDistributed_computeOutputShape getExactlyOneShape layer_computeOutputShape this inputShape0 =
     (case getExactlyOneShape inputShape0 of
        Inl e \<Rightarrow> Inl e
      | Inr inputShape \<Rightarrow>
          let childInputShape = [at inputShape 0] @ drop 2 inputShape in
          (case layer this of
             None \<Rightarrow> Inl (TypeError ''this.layer is undefined'')
           | Some l \<Rightarrow>
               (case layer_computeOutputShape l childInputShape of
                  Inl e \<Rightarrow> Inl e
                | Inr childOutputShape \<Rightarrow>
                    let timesteps = at inputShape 1 in
                    Inr ([at childOutputShape 0, timesteps] @ drop 1 childOutputShape))))"

subsection \<open>Configuration dictionaries and call options\<close>

text \<open>
  \<^verbatim>\<open>serialization.ConfigDict\<close>: string keys, JSON values. An object is the list of its
  properties in insertion order, each key once.
\<close>

datatype json =
    JNull | JBool bool | JNum int | JStr string | JArr "json list"
  | JObj "(string \<times> json) list"

type_synonym ConfigDict = "(string \<times> json) list"

text \<open>\<^verbatim>\<open>obj[k]\<close>: \<open>None\<close> is \<^verbatim>\<open>undefined\<close>.\<close>

definition get_property :: "(string \<times> 'v) list \<Rightarrow> string \<Rightarrow> 'v option" where
  "get_property obj k = map_of obj k"

text \<open>\<^verbatim>\<open>obj[k] = v\<close>: an existing property keeps its place, a new one goes last.\<close>

fun set_property :: "string \<Rightarrow> 'v \<Rightarrow> (string \<times> 'v) list \<Rightarrow> (string \<times> 'v) list" where
  "set_property k v [] = [(k, v)]"
| "set_property k v (p # ps) = (if fst p = k then (k, v) # ps else p # set_property k v ps)"

text \<open>
  \<^verbatim>\<open>Object.assign(target, source)\<close> writes every property of the source into the target,
  in the source's order, and returns the target.
\<close>

fun Object_assign :: "(string \<times> 'v) list \<Rightarrow> (string \<times> 'v) list \<Rightarrow> (string \<times> 'v) list" where
  "Object_assign target [] = target"
| "Object_assign target (p # ps) = Object_assign (set_property (fst p) (snd p) target) ps"

text \<open>
  \<^verbatim>\<open>Kwargs\<close> is \<^verbatim>\<open>{[key: string]: any}\<close>; the values the wrappers look at are tensors
  and tensor arrays.
\<close>

datatype kwval = KNull | KBool bool | KTensor tensor | KTensors "tensor list"

type_synonym Kwargs = "(string \<times> kwval) list"

text \<open>\<^verbatim>\<open>v == null\<close>: true of \<^verbatim>\<open>undefined\<close> and of \<^verbatim>\<open>null\<close>.\<close>

fun is_null :: "kwval option \<Rightarrow> bool" where
  "is_null None = True"
| "is_null (Some KNull) = True"
| "is_null (Some _) = False"

text \<open>A value of type \<^verbatim>\<open>Tensor|Tensor[]\<close> (or its symbolic counterpart).\<close>

datatype tensors = One tensor | Many "tensor list"

subsection \<open>Weights of a layer\<close>

text \<open>
  Modelled from the spec: \<^verbatim>\<open>getWeights\<close> and \<^verbatim>\<open>setWeights\<close> of the wrapped layers
  are methods of the external base class \<^verbatim>\<open>Layer\<close>, which is not among the sources.
  The spec (4.1) makes \<^verbatim>\<open>setWeights\<close> fail with a \<^verbatim>\<open>ValueError\<close> when "the supplied
  weight count/shape is incompatible with the inner layer's own validation": the supplied
  list must have as many tensors as the layer has weights, each of the shape of the weight
  it replaces. The text of the message is not given by the spec.
\<close>

definition Layer_getWeights :: "Layer \<Rightarrow> tensor list" where
  "Layer_getWeights l = weights l"

text \<open>
  Modelled from the spec: the validation of \<^verbatim>\<open>Layer.setWeights\<close>, count and shapes.
\<close>

definition Layer_accepts :: "Layer \<Rightarrow> tensor list \<Rightarrow> bool" where
  "Layer_accepts l ws = (map shape ws = map shape (weights l))"

text \<open>
  Modelled from the spec: \<^verbatim>\<open>Layer.setWeights\<close> stores the list when the validation
  passes and throws a \<^verbatim>\<open>ValueError\<close> otherwise, leaving the layer as it was.
\<close>

definition Layer_setWeights :: "Layer \<Rightarrow> tensor list \<Rightarrow> error + Layer" where
  "Layer_setWeights l ws =
     (if Layer_accepts l ws then Inr (l\<lparr>weights := ws\<rparr>)
      else Inl (ValueError ''weights are not compatible with the layer''))"

subsection \<open>Bidirectional\<close>

definition VALID_BIDIRECTIONAL_MERGE_MODES :: "string list" where
  "VALID_BIDIRECTIONAL_MERGE_MODES = [''sum'', ''mul'', ''concat'', ''ave'']"

text \<open>
  Modelled from the spec: \<^verbatim>\<open>generic_utils.checkStringTypeUnionValue\<close> is not among the
  sources. The spec has the merge mode "validated against the enumeration", an invalid
  value rejected with a validation error (\<^verbatim>\<open>ValueError\<close>), and
  \<^verbatim>\<open>null\<close> ("none") a member of the enumeration beside the four strings. The text of
  the message is not given by the spec.
\<close>

definition checkStringTypeUnionValue :: "string list \<Rightarrow> string \<Rightarrow> string option \<Rightarrow> error option" where
  "checkStringTypeUnionValue values label value =
     (case value of
        None \<Rightarrow> None
      | Some v \<Rightarrow>
          if v \<in> set values then None
          else Some (ValueError (v @ '' is not a valid '' @ label)))"

text \<open>\<^verbatim>\<open>checkBidirectionalMergeMode\<close> (lines 245-248).\<close>

definition checkBidirectionalMergeMode :: "string option \<Rightarrow> error option" where
  "checkBidirectionalMergeMode value =
     checkStringTypeUnionValue VALID_BIDIRECTIONAL_MERGE_MODES ''BidirectionalMergeMode'' value"

text \<open>
  \<^verbatim>\<open>BidirectionalLayerConfig\<close> (lines 250-262) with the \<^verbatim>\<open>weights\<close> entry of
  \<^verbatim>\<open>LayerConfig\<close> that the constructor tests. \<open>cfg_mergeMode\<close> is any string or
  \<^verbatim>\<open>null\<close>/\<^verbatim>\<open>undefined\<close>: the type annotation is not checked when the code runs.
\<close>

record BidirectionalLayerConfig =
  cfg_layer :: Layer
  cfg_mergeMode :: "string option"
  cfg_weights :: "tensor list option"

text \<open>
  The fields of \<^verbatim>\<open>Bidirectional\<close> (lines 264-272). \<open>trainable_priv\<close> is
  \<^verbatim>\<open>_trainable\<close>; \<^verbatim>\<open>_stateful\<close>, \<open>returnSequences\<close> and \<open>returnState\<close> are the
  fields of those names in the parent record.
\<close>

record Bidirectional = Wrapper +
  forwardLayer :: "Layer option"
  backwardLayer :: "Layer option"
  mergeMode :: "string option"
  numConstants :: "nat option"
  trainable_priv :: bool

text \<open>
  The constructor (lines 274-311). \<open>this0\<close> is the object as \<^verbatim>\<open>super(config)\<close> of the
  external class \<^verbatim>\<open>Layer\<close> leaves it; the first step is the assignment of
  \<^verbatim>\<open>Wrapper\<close>'s constructor (line 59). \<open>getClassName\<close> and \<open>getConfig\<close> of the
  supplied layer and \<open>deserialize\<close> (of \<^verbatim>\<open>./serialization\<close>) are external and are
  parameters. The result is the object as the constructor leaves it, at its end or at the
  \<^verbatim>\<open>throw\<close>, and the error thrown, if any.
\<close>

definition Bidirectional_constructor ::
  "(Layer \<Rightarrow> string) \<Rightarrow> (Layer \<Rightarrow> ConfigDict) \<Rightarrow> (string \<Rightarrow> ConfigDict \<Rightarrow> error + Layer) \<Rightarrow>
   Bidirectional \<Rightarrow> BidirectionalLayerConfig \<Rightarrow> Bidirectional \<times> error option" where
  "Bidirectional_constructor getClassName getConfig deserialize this0 config =
     (let this1 = this0\<lparr>layer := Some (cfg_layer config)\<rparr>;
          layerConfig = getConfig (cfg_layer config)
      in case deserialize (getClassName (cfg_layer config)) layerConfig of
           Inl e \<Rightarrow> (this1, Some e)
         | Inr fwd \<Rightarrow>
             let this2 = this1\<lparr>forwardLayer := Some fwd\<rparr>;
                 layerConfig1 =
                   set_property ''goBackwards''
                     (JBool (if get_property layerConfig ''goBackwards'' = Some (JBool True)
                             then False else True))
                     layerConfig
             in case deserialize (getClassName (cfg_layer config)) layerConfig1 of
                  Inl e \<Rightarrow> (this2, Some e)
                | Inr bwd \<Rightarrow>
                    let this3 = this2\<lparr>backwardLayer := Some bwd\<rparr>;
                        this4 = this3\<lparr>forwardLayer := Some (fwd\<lparr>name := ''forward_'' @ name fwd\<rparr>)\<rparr>;
                        this5 = this4\<lparr>backwardLayer := Some (bwd\<lparr>name := ''backward_'' @ name bwd\<rparr>)\<rparr>
                    in case checkBidirectionalMergeMode (cfg_mergeMode config) of
                         Some e \<Rightarrow> (this5, Some e)
                       | None \<Rightarrow>
                           let this6 = this5\<lparr>mergeMode := cfg_mergeMode config\<rparr> in
                           if cfg_weights config \<noteq> None then
                             (this6, Some (NotImplementedError
                                ''weights support is not implemented for Bidirectional layer yet.''))
                           else
                             (this6\<lparr>stateful := stateful (cfg_layer config),
                                    returnSequences := returnSequences (cfg_layer config),
                                    returnState := returnState (cfg_layer config),
                                    supportsMasking := True,
                                    trainable_priv := True,
                                    inputSpec := inputSpec (cfg_layer config),
                                    numConstants := None\<rparr>, None))"

text \<open>The \<^verbatim>\<open>trainable\<close> getter and setter of \<^verbatim>\<open>Bidirectional\<close> (lines 313-328).\<close>

definition Bidirectional_trainable :: "Bidirectional \<Rightarrow> bool" where
  "Bidirectional_trainable this = trainable_priv this"

definition Bidirectional_set_trainable :: "Bidirectional \<Rightarrow> bool \<Rightarrow> Bidirectional" where
  "Bidirectional_set_trainable this v =
     (let this1 = this\<lparr>trainable_priv := v\<rparr>;
          this2 = (case forwardLayer this1 of
                     Some f \<Rightarrow> this1\<lparr>forwardLayer := Some (f\<lparr>trainable := v\<rparr>)\<rparr>
                   | None \<Rightarrow> this1)
      in case backwardLayer this2 of
           Some b \<Rightarrow> this2\<lparr>backwardLayer := Some (b\<lparr>trainable := v\<rparr>)\<rparr>
         | None \<Rightarrow> this2)"

text \<open>\<^verbatim>\<open>Bidirectional.getWeights\<close> (lines 330-333).\<close>

definition Bidirectional_getWeights :: "Bidirectional \<Rightarrow> error + tensor list" where
  "Bidirectional_getWeights this =
     (case forwardLayer this of
        None \<Rightarrow> Inl (TypeError ''this.forwardLayer is undefined'')
      | Some f \<Rightarrow>
          (case backwardLayer this of
             None \<Rightarrow> Inl (TypeError ''this.backwardLayer is undefined'')
           | Some b \<Rightarrow> Inr (Layer_getWeights f @ Layer_getWeights b)))"

text \<open>
  \<^verbatim>\<open>Bidirectional.setWeights\<close> (lines 335-340): the wrapper as the method leaves it and
  the error thrown, if any.
\<close>

definition Bidirectional_setWeights :: "Bidirectional \<Rightarrow> tensor list \<Rightarrow> Bidirectional \<times> error option" where
  "Bidirectional_setWeights this ws =
     (let numWeights = length ws;
          numeightsOver2 = numWeights div 2
      in case forwardLayer this of
           None \<Rightarrow> (this, Some (TypeError ''this.forwardLayer is undefined''))
         | Some f \<Rightarrow>
             (case Layer_setWeights f (take numeightsOver2 ws) of
                Inl e \<Rightarrow> (this, Some e)
              | Inr f1 \<Rightarrow>
                  let this1 = this\<lparr>forwardLayer := Some f1\<rparr> in
                  (case backwardLayer this1 of
                     None \<Rightarrow> (this1, Some (TypeError ''this.backwardLayer is undefined''))
                   | Some b \<Rightarrow>
                       (case Layer_setWeights b (drop numeightsOver2 ws) of
                          Inl e \<Rightarrow> (this1, Some e)
                        | Inr b1 \<Rightarrow> (this1\<lparr>backwardLayer := Some b1\<rparr>, None)))))"

text \<open>
  The standardised arguments that \<^verbatim>\<open>standardizeArgs\<close> (of \<^verbatim>\<open>./recurrent\<close>, external)
  returns: \<^verbatim>\<open>{inputs, initialState, constants}\<close>.
\<close>

record standardized =
  std_inputs :: tensors
  std_initialState :: "tensor list option"
  std_constants :: "tensor list option"

text \<open>
  The first argument of \<^verbatim>\<open>Layer.apply\<close>: one tensor or an array of tensors. An element
  read out of range (\<^verbatim>\<open>inputs[0]\<close> of an empty array) is \<^verbatim>\<open>undefined\<close>, \<open>None\<close>.
\<close>

datatype apply_inputs = Single "tensor option" | Array "tensor option list"

text \<open>
  The loop of lines 428-434: does some additional input disagree with the first one on
  being symbolic?
\<close>

fun mixed :: "bool \<Rightarrow> tensor list \<Rightarrow> bool" where
  "mixed isSymbolicTensor [] = False"
| "mixed isSymbolicTensor (t # ts) =
     (if instanceof_SymbolicTensor t \<noteq> isSymbolicTensor then True else mixed isSymbolicTensor ts)"

text \<open>
  Lines 421-457 of \<^verbatim>\<open>Bidirectional.apply\<close>, once the additional inputs and their specs
  are known. \<open>super_apply\<close> is \<^verbatim>\<open>Layer.apply\<close> (external, a parameter); it is given the
  wrapper and returns it with its outcome.
\<close>

definition apply_additional ::
  "(Bidirectional \<Rightarrow> apply_inputs \<Rightarrow> Kwargs \<Rightarrow> Bidirectional \<times> (error + 'o)) \<Rightarrow>
   Bidirectional \<Rightarrow> tensor option \<Rightarrow> Kwargs \<Rightarrow> tensor list option \<Rightarrow>
   tensor list \<Rightarrow> InputSpec list \<Rightarrow> Bidirectional \<times> (error + 'o)" where
  "apply_additional super_apply this inputs kwargs constants additionalInputs additionalSpecs =
     (if constants \<noteq> None then
        (this, Inl (NotImplementedError
           (''Support for constants in Bidirectional layers is not '' @ ''implemented yet.'')))
      else
        let isSymbolicTensor =
              (case additionalInputs of [] \<Rightarrow> False | t # _ \<Rightarrow> instanceof_SymbolicTensor t)
        in if mixed isSymbolicTensor additionalInputs then
             (this, Inl (ValueError
                (''The initial state of a Bidirectional layer cannot be '' @
                 ''specified as a mix of symbolic and non-symbolic tensors'')))
           else if isSymbolicTensor then
             let fullInput = [inputs] @ map Some additionalInputs;
                 fullInputSpec = inputSpec this @ additionalSpecs;
                 originalInputSpec = inputSpec this;
                 this1 = this\<lparr>inputSpec := fullInputSpec\<rparr>
             in (case super_apply this1 (Array fullInput) kwargs of
                   (this2, Inl e) \<Rightarrow> (this2, Inl e)
                 | (this2, Inr output) \<Rightarrow> (this2\<lparr>inputSpec := originalInputSpec\<rparr>, Inr output))
           else super_apply this (Single inputs) kwargs)"

text \<open>
  \<^verbatim>\<open>Bidirectional.apply\<close> (lines 378-458). \<open>kwargs0\<close> is \<open>None\<close> when the caller
  passes no options. \<open>standardizeArgs\<close> is a parameter. The options that
  reach \<^verbatim>\<open>Layer.apply\<close> are the caller's object with \<^verbatim>\<open>initialState\<close> written
  into it (line 413).
\<close>

definition Bidirectional_apply ::
  "(tensors \<Rightarrow> kwval option \<Rightarrow> kwval option \<Rightarrow> nat option \<Rightarrow> error + standardized) \<Rightarrow>
   (Bidirectional \<Rightarrow> apply_inputs \<Rightarrow> Kwargs \<Rightarrow> Bidirectional \<times> (error + 'o)) \<Rightarrow>
   Bidirectional \<Rightarrow> tensors \<Rightarrow> Kwargs option \<Rightarrow> Bidirectional \<times> (error + 'o)" where
  "Bidirectional_apply standardizeArgs super_apply this inputs0 kwargs0 =
     (let initialState0 = (case kwargs0 of None \<Rightarrow> None | Some kw \<Rightarrow> get_property kw ''initialState'');
          constants0 = (case kwargs0 of None \<Rightarrow> None | Some kw \<Rightarrow> get_property kw ''constants'');
          kwargs = (case kwargs0 of None \<Rightarrow> [] | Some kw \<Rightarrow> kw)
      in case standardizeArgs inputs0 initialState0 constants0 (numConstants this) of
           Inl e \<Rightarrow> (this, Inl e)
         | Inr standardized \<Rightarrow>
             let constants = std_constants standardized;
                 initialState =
                   (case std_inputs standardized of
                      Many ts \<Rightarrow> Some (drop 1 ts)
                    | One t \<Rightarrow> std_initialState standardized);
                 inputs =
                   (case std_inputs standardized of
                      Many ts \<Rightarrow> (case ts of [] \<Rightarrow> None | t # _ \<Rightarrow> Some t)
                    | One t \<Rightarrow> Some t)
             in if (initialState = None \<or> initialState = Some []) \<and> constants = None then
                  super_apply this (Single inputs) kwargs
                else
                  (case initialState of
                     None \<Rightarrow> apply_additional super_apply this inputs kwargs constants [] []
                   | Some states \<Rightarrow>
                       let numStates = length states in
                       if numStates mod 2 > 0 then
                         (this, Inl (ValueError
                            (''When passing `initialState` to a Bidrectional RNN, '' @
                             ''the state should be an Array containing the states of '' @
                             ''the underlying RNNs.'')))
                       else
                         let kwargs1 = set_property ''initialState'' (KTensors states) kwargs;
                             stateSpecs = map (\<lambda>state. InputSpec None (Some (shape state))) states
                         in (case forwardLayer this of
                               None \<Rightarrow> (this, Inl (TypeError ''this.forwardLayer is undefined''))
                             | Some f \<Rightarrow>
                                 let this1 = this\<lparr>forwardLayer :=
                                       Some (f\<lparr>stateSpec := take (numStates div 2) stateSpecs\<rparr>)\<rparr>
                                 in (case backwardLayer this1 of
                                       None \<Rightarrow> (this1, Inl (TypeError ''this.backwardLayer is undefined''))
                                     | Some b \<Rightarrow>
                                         let this2 = this1\<lparr>backwardLayer :=
                                               Some (b\<lparr>stateSpec := drop (numStates div 2) stateSpecs\<rparr>)\<rparr>
                                         in apply_additional super_apply this2 inputs kwargs1 constants
                                              states stateSpecs))))"

text \<open>
  Lines 462-481 of \<^verbatim>\<open>Bidirectional.call\<close>: the mask guard and the two calls that
  produce \<^verbatim>\<open>y\<close> and \<^verbatim>\<open>yRev\<close>. The \<^verbatim>\<open>call\<close> method of a recurrent layer is external
  and is the parameter \<open>layer_call\<close>, a function of the layer, the inputs and the options it
  is given. \<^verbatim>\<open>Object.assign(kwargs, ...)\<close> writes into the caller's object, so the
  options are returned as the method leaves them. \<^verbatim>\<open>initialState.length / 2\<close> is not
  rounded by the source; \<^verbatim>\<open>slice\<close> truncates its arguments, which is \<open>div\<close>. An
  \<^verbatim>\<open>initialState\<close> that is neither \<^verbatim>\<open>null\<close> nor an array is outside the type
  the callers use; it has no array \<^verbatim>\<open>slice\<close> and is rendered as a \<open>TypeError\<close>.
\<close>

definition Bidirectional_call_layers ::
  "(Layer \<Rightarrow> tensors \<Rightarrow> Kwargs \<Rightarrow> error + 'y) \<Rightarrow>
   Bidirectional \<Rightarrow> tensors \<Rightarrow> Kwargs \<Rightarrow> Kwargs \<times> (error + 'y \<times> 'y)" where
  "Bidirectional_call_layers layer_call this inputs kwargs =
     (if \<not> is_null (get_property kwargs ''mask'') then
        (kwargs, Inl (NotImplementedError
           (''The support for masking is not implemented for '' @ ''Bidirectional layers yet.'')))
      else
        let initialState = get_property kwargs ''initialState'' in
        if is_null initialState then
          (case forwardLayer this of
             None \<Rightarrow> (kwargs, Inl (TypeError ''this.forwardLayer is undefined''))
           | Some f \<Rightarrow>
               (case layer_call f inputs kwargs of
                  Inl e \<Rightarrow> (kwargs, Inl e)
                | Inr y \<Rightarrow>
                    (case backwardLayer this of
                       None \<Rightarrow> (kwargs, Inl (TypeError ''this.backwardLayer is undefined''))
                     | Some b \<Rightarrow>
                         (case layer_call b inputs kwargs of
                            Inl e \<Rightarrow> (kwargs, Inl e)
                          | Inr yRev \<Rightarrow> (kwargs, Inr (y, yRev))))))
        else
          (case initialState of
             Some (KTensors states) \<Rightarrow>
               let forwardState = take (length states div 2) states;
                   backwardState = drop (length states div 2) states
               in (case forwardLayer this of
                     None \<Rightarrow> (kwargs, Inl (TypeError ''this.forwardLayer is undefined''))
                   | Some f \<Rightarrow>
                       let kwargs1 = Object_assign kwargs [(''initialState'', KTensors forwardState)] in
                       (case layer_call f inputs kwargs1 of
                          Inl e \<Rightarrow> (kwargs1, Inl e)
                        | Inr y \<Rightarrow>
                            let kwargs2 =
                                  Object_assign kwargs1 [(''initialState'', KTensors backwardState)]
                            in (case layer_call f inputs kwargs2 of
                                  Inl e \<Rightarrow> (kwargs2, Inl e)
                                | Inr yRev \<Rightarrow> (kwargs2, Inr (y, yRev)))))
           | _ \<Rightarrow> (kwargs, Inl (TypeError ''initialState is not an array''))))"

text \<open>
  \<^verbatim>\<open>Bidirectional.call\<close> (lines 460-519). Lines 483-517 collect the states, reverse
  \<^verbatim>\<open>yRev\<close> and merge the two outputs with operations of the external tensor library;
  they read \<^verbatim>\<open>returnState\<close>, \<^verbatim>\<open>returnSequences\<close> and \<^verbatim>\<open>mergeMode\<close> of the wrapper
  and neither the options nor the clones. They are the parameter \<open>merge\<close>.
\<close>

definition Bidirectional_call ::
  "(Layer \<Rightarrow> tensors \<Rightarrow> Kwargs \<Rightarrow> error + 'y) \<Rightarrow> (Bidirectional \<Rightarrow> 'y \<Rightarrow> 'y \<Rightarrow> error + 'o) \<Rightarrow>
   Bidirectional \<Rightarrow> tensors \<Rightarrow> Kwargs \<Rightarrow> Kwargs \<times> (error + 'o)" where
  "Bidirectional_call layer_call merge this inputs kwargs =
     (case Bidirectional_call_layers layer_call this inputs kwargs of
        (kwargs1, Inl e) \<Rightarrow> (kwargs1, Inl e)
      | (kwargs1, Inr (y, yRev)) \<Rightarrow> (kwargs1, merge this y yRev))"





section \<open>Concrete collaborators\<close>

text \<open>
  Stand-ins for the external collaborators, used where a statement is evaluated at a
  concrete input: a recurrent layer with its class name and configuration, a class
  registry that knows this one class, a dense layer, and the helpers of the layer
  framework.
\<close>

definition ex_layer :: Layer where
  "ex_layer =
     \<lparr>name = ''lstm'', trainable = False, built = False,
      inputSpec = [InputSpec (Some 3) None], supportsMasking = False, weights = [],
      stateful = False, returnSequences = True, returnState = False, goBackwards = True,
      stateSpec = []\<rparr>"

definition ex_getClassName :: "Layer \<Rightarrow> string" where
  "ex_getClassName l = (if name l = ''dense_1'' then ''Dense'' else ''LSTM'')"

definition ex_getConfig :: "Layer \<Rightarrow> ConfigDict" where
  "ex_getConfig l =
     [(''name'', JStr (name l)), (''trainable'', JBool (trainable l)),
      (''returnSequences'', JBool (returnSequences l)), (''returnState'', JBool (returnState l)),
      (''goBackwards'', JBool (goBackwards l)), (''stateful'', JBool (stateful l))]"

definition flag :: "ConfigDict \<Rightarrow> string \<Rightarrow> bool" where
  "flag cfg k = (get_property cfg k = Some (JBool True))"

definition ex_deserialize :: "string \<Rightarrow> ConfigDict \<Rightarrow> error + Layer" where
  "ex_deserialize className cfg =
     (if className = ''LSTM'' then
        Inr \<lparr>name = (case get_property cfg ''name'' of Some (JStr n) \<Rightarrow> n | _ \<Rightarrow> ''lstm_1''),
             trainable = flag cfg ''trainable'', built = False,
             inputSpec = [InputSpec (Some 3) None], supportsMasking = False, weights = [],
             stateful = flag cfg ''stateful'', returnSequences = flag cfg ''returnSequences'',
             returnState = flag cfg ''returnState'', goBackwards = flag cfg ''goBackwards'',
             stateSpec = []\<rparr>
      else Inl (ValueError (''Unknown layer: '' @ className)))"

text \<open>A \<^verbatim>\<open>Bidirectional\<close> object as the base class's constructor leaves it.\<close>

definition ex_this0 :: Bidirectional where
  "ex_this0 =
     \<lparr>name = ''bidirectional_1'', trainable = True, built = False, inputSpec = [],
      supportsMasking = False, weights = [], stateful = False, returnSequences = False,
      returnState = False, goBackwards = False, stateSpec = [], layer = None,
      forwardLayer = None, backwardLayer = None, mergeMode = None, numConstants = None,
      trainable_priv = False\<rparr>"

definition ex_config :: "string option \<Rightarrow> BidirectionalLayerConfig" where
  "ex_config m = \<lparr>cfg_layer = ex_layer, cfg_mergeMode = m, cfg_weights = None\<rparr>"

text \<open>The wrapper that the constructor builds around \<open>ex_layer\<close> with merge mode \<^verbatim>\<open>concat\<close>.\<close>

definition ex_bidirectional :: Bidirectional where
  "ex_bidirectional =
     fst (Bidirectional_constructor ex_getClassName ex_getConfig ex_deserialize ex_this0
            (ex_config (Some ''concat'')))"

text \<open>The same wrapper once each clone holds one weight, a vector of length 2.\<close>

definition ex_built :: Bidirectional where
  "ex_built =
     ex_bidirectional
       \<lparr>built := True,
        forwardLayer :=
          map_option (\<lambda>l. l\<lparr>built := True, weights := [Tensor [Num 2] 1]\<rparr>)
            (forwardLayer ex_bidirectional),
        backwardLayer :=
          map_option (\<lambda>l. l\<lparr>built := True, weights := [Tensor [Num 2] 2]\<rparr>)
            (backwardLayer ex_bidirectional)\<rparr>"

text \<open>A layer's \<^verbatim>\<open>call\<close> that reports which layer ran, on what, from which initial state.\<close>

definition ex_call :: "Layer \<Rightarrow> tensors \<Rightarrow> Kwargs \<Rightarrow> error + string \<times> tensors \<times> kwval option" where
  "ex_call l inputs kwargs = Inr (name l, inputs, get_property kwargs ''initialState'')"

text \<open>The merging tail of \<^verbatim>\<open>call\<close> with merge mode \<^verbatim>\<open>null\<close>: both outputs, unmerged.\<close>

definition ex_merge :: "Bidirectional \<Rightarrow> 'y \<Rightarrow> 'y \<Rightarrow> error + 'y list" where
  "ex_merge this y yRev = Inr [y, yRev]"

definition ex_getExactlyOneShape :: "shapes \<Rightarrow> error + Shape" where
  "ex_getExactlyOneShape s =
     (case s of
        OneShape sh \<Rightarrow> Inr sh
      | ManyShapes shs \<Rightarrow>
          (case shs of
             [sh] \<Rightarrow> Inr sh
           | _ \<Rightarrow> Inl (ValueError ''Expected exactly 1 Shape'')))"

text \<open>A dense layer with one unit: the last dimension becomes 1.\<close>

definition ex_dense :: Layer where
  "ex_dense = ex_layer\<lparr>name := ''dense_1''\<rparr>"

definition ex_dense_computeOutputShape :: "Layer \<Rightarrow> Shape \<Rightarrow> error + Shape" where
  "ex_dense_computeOutputShape l s = Inr (butlast s @ [Num 1])"

definition ex_layer_build :: "Layer \<Rightarrow> Shape \<Rightarrow> Layer \<times> error option" where
  "ex_layer_build l s = (l\<lparr>weights := [Tensor [at s (length s - 1), Num 1] 0]\<rparr>, None)"

definition ex_timeDistributed :: Wrapper where
  "ex_timeDistributed =
     \<lparr>name = ''time_distributed_1'', trainable = True, built = False, inputSpec = [],
      supportsMasking = True, weights = [], stateful = False, returnSequences = False,
      returnState = False, goBackwards = False, stateSpec = [], layer = Some ex_dense\<rparr>"

definition toListOrNull :: "kwval option \<Rightarrow> tensor list option" where
  "toListOrNull v =
     (case v of
        Some (KTensors ts) \<Rightarrow> Some ts
      | Some (KTensor t) \<Rightarrow> Some [t]
      | _ \<Rightarrow> None)"

definition ex_standardizeArgs ::
  "tensors \<Rightarrow> kwval option \<Rightarrow> kwval option \<Rightarrow> nat option \<Rightarrow> error + standardized" where
  "ex_standardizeArgs inputs initialState constants numConsts =
     (case inputs of
        One t \<Rightarrow>
          Inr \<lparr>std_inputs = One t, std_initialState = toListOrNull initialState,
               std_constants = toListOrNull constants\<rparr>
      | Many ts \<Rightarrow>
          if is_null initialState \<and> is_null constants then
            (case ts of
               [] \<Rightarrow> Inl (ValueError ''no inputs'')
             | t # rest \<Rightarrow>
                 Inr \<lparr>std_inputs = One t,
                      std_initialState = (if rest = [] then None else Some rest),
                      std_constants = None\<rparr>)
          else Inl (ValueError
                 (''When inputs is an array, neither initialState or constants '' @
                  ''should be provided'')))"

text \<open>
  A \<^verbatim>\<open>Layer.apply\<close> that marks the wrapper built and reports the input specification it
  found on the wrapper.
\<close>

definition ex_super_apply ::
  "Bidirectional \<Rightarrow> apply_inputs \<Rightarrow> Kwargs \<Rightarrow> Bidirectional \<times> (error + InputSpec list)" where
  "ex_super_apply this inputs kwargs = (this\<lparr>built := True\<rparr>, Inr (inputSpec this))"

section \<open>TimeDistributed: build and shape inference\<close>

lemma JSON_stringify_2_3: "JSON_stringify [Num 2, Num 3] = ''[2,3]''"
  by (simp add: JSON_stringify_def stringify_int_def decimal.simps digit_def)

text \<open>
  Claim C8. For every input shape of rank strictly less than 3, \<^verbatim>\<open>TimeDistributed.build\<close>
  throws a \<^verbatim>\<open>ValueError\<close> whose message ends with the received shape as
  \<^verbatim>\<open>JSON.stringify\<close> prints it, and it returns the wrapper exactly as it found it: the
  wrapped layer is not built, the wrapper is not marked built, and no input specification
  is recorded. The result does not depend on the wrapped layer's \<open>build\<close>.
\<close>

theorem TimeDistributed_build_rejects_low_rank:
  assumes "getExactlyOneShape arg = Inr inputShape"
      and "length inputShape < 3"
  shows "TimeDistributed_build getExactlyOneShape layer_build this arg =
           (this, Some (ValueError
              (''TimeDistributed layer expects an input shape >= 3D, but received input shape '' @
               JSON_stringify inputShape)))"
  using assms by (simp add: TimeDistributed_build_def)

theorem TimeDistributed_build_rejects_low_rank_witness:
  "ex_getExactlyOneShape (OneShape [Num 2, Num 3]) = Inr [Num 2, Num 3] \<and>
   length [Num 2, Num 3] < 3 \<and>
   TimeDistributed_build ex_getExactlyOneShape ex_layer_build ex_timeDistributed
       (OneShape [Num 2, Num 3]) =
     (ex_timeDistributed, Some (ValueError
        ''TimeDistributed layer expects an input shape >= 3D, but received input shape [2,3]''))"
proof -
  have g: "ex_getExactlyOneShape (OneShape [Num 2, Num 3]) = Inr [Num 2, Num 3]"
    by (simp add: ex_getExactlyOneShape_def)
  show ?thesis
    using TimeDistributed_build_rejects_low_rank
      [where getExactlyOneShape = ex_getExactlyOneShape and arg = "OneShape [Num 2, Num 3]"
         and inputShape = "[Num 2, Num 3]" and layer_build = ex_layer_build
         and this = ex_timeDistributed] g
    by (simp add: JSON_stringify_2_3)
qed

text \<open>
  Claim C5. For an input shape \<open>[b, t, f1, ..., fk]\<close> of rank at least 3,
  \<^verbatim>\<open>TimeDistributed.computeOutputShape\<close> is the wrapped layer's output shape on the
  per-step shape \<open>[b, f1, ..., fk]\<close> with \<open>t\<close> put at position 1, whatever the rank of
  that output shape: the result is \<^verbatim>\<open>[child[0], t].concat(child.slice(1))\<close>, its axis 1
  is the input's axis 1, and for a child shape \<open>[c0, c1, ..., cm]\<close> it is
  \<open>[c0, t, c1, ..., cm]\<close>, every other dimension being the child's. (A child shape with no
  dimension at all, which no layer returns since a shape starts with the batch dimension,
  gives \<^verbatim>\<open>[undefined, t]\<close>.)
\<close>

theorem TimeDistributed_computeOutputShape_reinserts_time:
  assumes "getExactlyOneShape arg = Inr (b # t # fs)"
      and "fs \<noteq> []"
      and "layer this = Some l"
      and "layer_computeOutputShape l (b # fs) = Inr childOutputShape"
  shows "\<exists>r. TimeDistributed_computeOutputShape getExactlyOneShape layer_computeOutputShape
               this arg = Inr r \<and>
             r = at childOutputShape 0 # t # drop 1 childOutputShape \<and>
             r ! 1 = t \<and>
             (childOutputShape \<noteq> [] \<longrightarrow>
                r = take 1 childOutputShape @ [t] @ drop 1 childOutputShape \<and>
                length r = Suc (length childOutputShape) \<and>
                r ! 0 = childOutputShape ! 0 \<and>
                (\<forall>i. 1 \<le> i \<and> i < length childOutputShape \<longrightarrow> r ! Suc i = childOutputShape ! i))"
  using assms
  by (cases childOutputShape) (auto simp add: TimeDistributed_computeOutputShape_def at_def)

theorem TimeDistributed_computeOutputShape_reinserts_time_witness:
  "ex_getExactlyOneShape (OneShape [Num 2, Num 3, Num 4]) = Inr [Num 2, Num 3, Num 4] \<and>
   layer ex_timeDistributed = Some ex_dense \<and>
   ex_dense_computeOutputShape ex_dense [Num 2, Num 4] = Inr [Num 2, Num 1] \<and>
   TimeDistributed_computeOutputShape ex_getExactlyOneShape ex_dense_computeOutputShape
       ex_timeDistributed (OneShape [Num 2, Num 3, Num 4]) = Inr [Num 2, Num 3, Num 1]"
proof -
  have g: "ex_getExactlyOneShape (OneShape [Num 2, Num 3, Num 4]) = Inr [Num 2, Num 3, Num 4]"
    by (simp add: ex_getExactlyOneShape_def)
  have l: "layer ex_timeDistributed = Some ex_dense" by (simp add: ex_timeDistributed_def)
  have c: "ex_dense_computeOutputShape ex_dense [Num 2, Num 4] = Inr [Num 2, Num 1]"
    by (simp add: ex_dense_computeOutputShape_def)
  show ?thesis
    using TimeDistributed_computeOutputShape_reinserts_time
      [where getExactlyOneShape = ex_getExactlyOneShape
         and arg = "OneShape [Num 2, Num 3, Num 4]" and b = "Num 2" and t = "Num 3"
         and fs = "[Num 4]" and this = ex_timeDistributed and l = ex_dense
         and layer_computeOutputShape = ex_dense_computeOutputShape
         and childOutputShape = "[Num 2, Num 1]"] g l c
    by (auto simp add: at_def)
qed

section \<open>Properties of JavaScript objects as property lists\<close>

lemma get_set_property_same: "get_property (set_property k v obj) k = Some v"
  by (induction obj) (auto simp add: get_property_def)

lemma get_set_property_other:
  "k' \<noteq> k \<Longrightarrow> get_property (set_property k v obj) k' = get_property obj k'"
  by (induction obj) (auto simp add: get_property_def)

lemma get_Object_assign_absent:
  "get_property source k = None \<Longrightarrow>
     get_property (Object_assign target source) k = get_property target k"
proof (induction source arbitrary: target)
  case Nil
  then show ?case by simp
next
  case (Cons p ps)
  from Cons.prems have ne: "fst p \<noteq> k" and rest: "get_property ps k = None"
    by (auto simp add: get_property_def split: if_splits)
  show ?case
    using Cons.IH [OF rest] ne by (simp add: get_set_property_other)
qed





section \<open>The concrete wrapper\<close>


lemma ex_forward_clone:
  "ex_deserialize (ex_getClassName ex_layer) (ex_getConfig ex_layer) = Inr ex_layer"
  by (simp add: ex_deserialize_def ex_getClassName_def ex_getConfig_def ex_layer_def flag_def
        get_property_def)

lemma ex_goBackwards: "get_property (ex_getConfig ex_layer) ''goBackwards'' = Some (JBool True)"
  by (simp add: ex_getConfig_def ex_layer_def get_property_def)

lemma ex_backward_clone:
  "ex_deserialize (ex_getClassName ex_layer)
     (set_property ''goBackwards'' (JBool False) (ex_getConfig ex_layer)) =
   Inr (ex_layer\<lparr>goBackwards := False\<rparr>)"
  by (simp add: ex_deserialize_def ex_getClassName_def ex_getConfig_def ex_layer_def flag_def
        get_property_def)

lemma ex_constructor_concat:
  "Bidirectional_constructor ex_getClassName ex_getConfig ex_deserialize ex_this0
     (ex_config (Some ''concat'')) = (ex_bidirectional, None)"
  unfolding ex_bidirectional_def
  by (simp add: Bidirectional_constructor_def Let_def ex_config_def ex_forward_clone
        ex_goBackwards ex_backward_clone checkBidirectionalMergeMode_def
        checkStringTypeUnionValue_def VALID_BIDIRECTIONAL_MERGE_MODES_def)

lemma ex_bidirectional_value:
  "ex_bidirectional =
     ex_this0\<lparr>layer := Some ex_layer,
              forwardLayer := Some (ex_layer\<lparr>name := ''forward_lstm''\<rparr>),
              backwardLayer := Some (ex_layer\<lparr>name := ''backward_lstm'', goBackwards := False\<rparr>),
              mergeMode := Some ''concat'', stateful := False, returnSequences := True,
              returnState := False, supportsMasking := True, trainable_priv := True,
              inputSpec := [InputSpec (Some 3) None], numConstants := None\<rparr>"
  unfolding ex_bidirectional_def
  by (simp add: Bidirectional_constructor_def Let_def ex_config_def ex_forward_clone
        ex_goBackwards ex_backward_clone checkBidirectionalMergeMode_def
        checkStringTypeUnionValue_def VALID_BIDIRECTIONAL_MERGE_MODES_def)
     (simp add: ex_layer_def)

lemma ex_built_clones:
  "forwardLayer ex_built =
     Some (ex_layer\<lparr>name := ''forward_lstm'', built := True, weights := [Tensor [Num 2] 1]\<rparr>) \<and>
   backwardLayer ex_built =
     Some (ex_layer\<lparr>name := ''backward_lstm'', goBackwards := False, built := True,
                    weights := [Tensor [Num 2] 2]\<rparr>)"
  by (simp add: ex_built_def ex_bidirectional_value)

lemma ex_call_with_states:
  "Bidirectional_call_layers ex_call ex_bidirectional (One (Tensor [Num 2, Num 5, Num 4] 10))
       [(''initialState'', KTensors [Tensor [Num 2, Num 3] 11, Tensor [Num 2, Num 3] 12])] =
     ([(''initialState'', KTensors [Tensor [Num 2, Num 3] 12])],
      Inr ((''forward_lstm'', One (Tensor [Num 2, Num 5, Num 4] 10),
              Some (KTensors [Tensor [Num 2, Num 3] 11])),
           (''forward_lstm'', One (Tensor [Num 2, Num 5, Num 4] 10),
              Some (KTensors [Tensor [Num 2, Num 3] 12]))))"
  by (simp add: Bidirectional_call_layers_def Let_def ex_call_def ex_bidirectional_value
        get_property_def ex_layer_def)

section \<open>Bidirectional: construction\<close>

lemma invalid_mergeMode_rejected:
  assumes "m \<notin> set VALID_BIDIRECTIONAL_MERGE_MODES"
  shows "checkBidirectionalMergeMode (Some m) =
           Some (ValueError (m @ '' is not a valid BidirectionalMergeMode''))"
  using assms
  by (simp add: checkBidirectionalMergeMode_def checkStringTypeUnionValue_def)

text \<open>
  Claim C2, as stated, fails: it has the constructor reject an invalid merge mode before
  any clone of the supplied layer exists. The constructor validates the merge mode on
  line 298, after lines 285-297 have created and named both clones. With merge mode
  \<^verbatim>\<open>"xyz"\<close> it throws the \<^verbatim>\<open>ValueError\<close>, and the object it leaves holds a forward and
  a backward clone.
\<close>

theorem Bidirectional_constructor_invalid_mergeMode_counterexample:
  "snd (Bidirectional_constructor ex_getClassName ex_getConfig ex_deserialize ex_this0
          (ex_config (Some ''xyz''))) =
     Some (ValueError ''xyz is not a valid BidirectionalMergeMode'') \<and>
   forwardLayer (fst (Bidirectional_constructor ex_getClassName ex_getConfig ex_deserialize
          ex_this0 (ex_config (Some ''xyz'')))) \<noteq> None \<and>
   backwardLayer (fst (Bidirectional_constructor ex_getClassName ex_getConfig ex_deserialize
          ex_this0 (ex_config (Some ''xyz'')))) \<noteq> None"
  by (simp add: Bidirectional_constructor_def Let_def ex_config_def ex_forward_clone
        ex_goBackwards ex_backward_clone checkBidirectionalMergeMode_def
        checkStringTypeUnionValue_def VALID_BIDIRECTIONAL_MERGE_MODES_def)

text \<open>
  Claim C2, amended. For every configuration whose merge mode is a string outside
  \<^verbatim>\<open>VALID_BIDIRECTIONAL_MERGE_MODES\<close> and whose layer can be cloned twice (both
  \<^verbatim>\<open>deserialize\<close> calls return), the constructor throws a \<^verbatim>\<open>ValueError\<close>; at the throw
  both clones have been created and named, and nothing else of the wrapper has been set:
  the object is the base object with \<open>layer\<close>, \<open>forwardLayer\<close> and \<open>backwardLayer\<close>
  assigned.
\<close>

theorem Bidirectional_constructor_validates_after_cloning:
  assumes "cfg_mergeMode config = Some m"
      and "m \<notin> set VALID_BIDIRECTIONAL_MERGE_MODES"
      and "deserialize (getClassName (cfg_layer config)) (getConfig (cfg_layer config)) = Inr fwd"
      and "deserialize (getClassName (cfg_layer config))
             (set_property ''goBackwards''
                (JBool (get_property (getConfig (cfg_layer config)) ''goBackwards'' \<noteq> Some (JBool True)))
                (getConfig (cfg_layer config))) = Inr bwd"
  shows "\<exists>msg. Bidirectional_constructor getClassName getConfig deserialize base config =
           (base\<lparr>layer := Some (cfg_layer config),
                  forwardLayer := Some (fwd\<lparr>name := ''forward_'' @ name fwd\<rparr>),
                  backwardLayer := Some (bwd\<lparr>name := ''backward_'' @ name bwd\<rparr>)\<rparr>,
            Some (ValueError msg))"
  using assms
  by (cases "get_property (getConfig (cfg_layer config)) ''goBackwards'' = Some (JBool True)")
     (simp_all add: Bidirectional_constructor_def Let_def invalid_mergeMode_rejected)

theorem Bidirectional_constructor_validates_after_cloning_witness:
  "cfg_mergeMode (ex_config (Some ''xyz'')) = Some ''xyz'' \<and>
   ''xyz'' \<notin> set VALID_BIDIRECTIONAL_MERGE_MODES \<and>
   (\<exists>msg. Bidirectional_constructor ex_getClassName ex_getConfig ex_deserialize ex_this0
            (ex_config (Some ''xyz'')) =
          (ex_this0\<lparr>layer := Some ex_layer,
                    forwardLayer := Some (ex_layer\<lparr>name := ''forward_lstm''\<rparr>),
                    backwardLayer := Some (ex_layer\<lparr>goBackwards := False, name := ''backward_lstm''\<rparr>)\<rparr>,
           Some (ValueError msg)))"
proof -
  have m: "cfg_mergeMode (ex_config (Some ''xyz'')) = Some ''xyz''"
    by (simp add: ex_config_def)
  have v: "''xyz'' \<notin> set VALID_BIDIRECTIONAL_MERGE_MODES"
    by (simp add: VALID_BIDIRECTIONAL_MERGE_MODES_def)
  have l: "cfg_layer (ex_config (Some ''xyz'')) = ex_layer"
    by (simp add: ex_config_def)
  have n: "name ex_layer = ''lstm''" by (simp add: ex_layer_def)
  show ?thesis
    using Bidirectional_constructor_validates_after_cloning
      [where config = "ex_config (Some ''xyz'')" and m = "''xyz''"
         and deserialize = ex_deserialize and getClassName = ex_getClassName
         and getConfig = ex_getConfig and fwd = ex_layer
         and bwd = "ex_layer\<lparr>goBackwards := False\<rparr>" and base = ex_this0]
      m v
    by (simp add: l n ex_forward_clone ex_goBackwards ex_backward_clone)
qed

text \<open>
  Claim C6. Whenever both clones can be created, the forward clone is
  \<^verbatim>\<open>deserialize\<close> of the supplied layer's class name and configuration as
  \<^verbatim>\<open>getConfig\<close> returned it, and the backward clone is \<^verbatim>\<open>deserialize\<close> of the same
  class name and the configuration in which \<^verbatim>\<open>goBackwards\<close> is \<^verbatim>\<open>false\<close> if it was
  \<^verbatim>\<open>true\<close> and \<^verbatim>\<open>true\<close> if it was anything else or absent, every other entry
  unchanged; the clones are then renamed with the prefixes \<^verbatim>\<open>forward_\<close> and
  \<^verbatim>\<open>backward_\<close>. This holds of the object the constructor leaves, whether it returns or
  throws later.
\<close>

theorem Bidirectional_constructor_clones:
  assumes cfg: "getConfig (cfg_layer config) = layerConfig"
      and cls: "getClassName (cfg_layer config) = className"
      and flip: "backwardConfig =
                   set_property ''goBackwards''
                     (JBool (get_property layerConfig ''goBackwards'' \<noteq> Some (JBool True)))
                     layerConfig"
      and fwd: "deserialize className layerConfig = Inr fwd"
      and bwd: "deserialize className backwardConfig = Inr bwd"
      and res: "Bidirectional_constructor getClassName getConfig deserialize base config = (this, r)"
  shows "forwardLayer this = Some (fwd\<lparr>name := ''forward_'' @ name fwd\<rparr>) \<and>
         backwardLayer this = Some (bwd\<lparr>name := ''backward_'' @ name bwd\<rparr>) \<and>
         get_property backwardConfig ''goBackwards'' =
           Some (JBool (get_property layerConfig ''goBackwards'' \<noteq> Some (JBool True))) \<and>
         (\<forall>k. k \<noteq> ''goBackwards'' \<longrightarrow> get_property backwardConfig k = get_property layerConfig k)"
proof -
  have clones: "forwardLayer this = Some (fwd\<lparr>name := ''forward_'' @ name fwd\<rparr>) \<and>
                backwardLayer this = Some (bwd\<lparr>name := ''backward_'' @ name bwd\<rparr>)"
    using cfg cls fwd bwd res unfolding flip
    by (cases "get_property layerConfig ''goBackwards'' = Some (JBool True)")
       (auto simp add: Bidirectional_constructor_def Let_def split: option.splits if_splits)
  then show ?thesis
    by (simp add: flip get_set_property_same get_set_property_other)
qed

theorem Bidirectional_constructor_clones_witness:
  "goBackwards ex_layer = True \<and>
   Bidirectional_constructor ex_getClassName ex_getConfig ex_deserialize ex_this0
     (ex_config (Some ''concat'')) = (ex_bidirectional, None) \<and>
   forwardLayer ex_bidirectional = Some (ex_layer\<lparr>name := ''forward_lstm''\<rparr>) \<and>
   map_option goBackwards (forwardLayer ex_bidirectional) = Some True \<and>
   backwardLayer ex_bidirectional =
     Some (ex_layer\<lparr>goBackwards := False, name := ''backward_lstm''\<rparr>) \<and>
   map_option goBackwards (backwardLayer ex_bidirectional) = Some False"
proof -
  let ?c = "ex_config (Some ''concat'')"
  have l: "cfg_layer ?c = ex_layer" by (simp add: ex_config_def)
  have cfg: "ex_getConfig (cfg_layer ?c) = ex_getConfig ex_layer" by (simp add: l)
  have cls: "ex_getClassName (cfg_layer ?c) = ex_getClassName ex_layer" by (simp add: l)
  have flip: "set_property ''goBackwards'' (JBool False) (ex_getConfig ex_layer) =
              set_property ''goBackwards''
                (JBool (get_property (ex_getConfig ex_layer) ''goBackwards'' \<noteq> Some (JBool True)))
                (ex_getConfig ex_layer)"
    by (simp add: ex_goBackwards)
  have g: "goBackwards ex_layer = True" and n: "name ex_layer = ''lstm''"
    by (simp_all add: ex_layer_def)
  show ?thesis
    using Bidirectional_constructor_clones
      [where getConfig = ex_getConfig and getClassName = ex_getClassName
         and deserialize = ex_deserialize, OF cfg cls flip ex_forward_clone ex_backward_clone
         ex_constructor_concat]
      g ex_constructor_concat
    by (simp add: n)
qed

text \<open>
  Claim C10. When the constructor of \<^verbatim>\<open>Bidirectional\<close> returns, the \<^verbatim>\<open>trainable\<close>
  getter gives \<^verbatim>\<open>true\<close>, for every supplied layer (whatever its own flag) and every
  state the base constructor left, since line 308 sets \<^verbatim>\<open>_trainable\<close> to \<^verbatim>\<open>true\<close>;
  and the getter reads \<^verbatim>\<open>_trainable\<close> only: replacing the forward and the backward
  clone by anything does not change its value.
\<close>

theorem Bidirectional_constructor_trainable:
  assumes "Bidirectional_constructor getClassName getConfig deserialize base config = (this, None)"
  shows "Bidirectional_trainable this = True \<and>
         (\<forall>f b. Bidirectional_trainable (this\<lparr>forwardLayer := f, backwardLayer := b\<rparr>) =
                  Bidirectional_trainable this)"
  using assms
  by (auto simp add: Bidirectional_constructor_def Bidirectional_trainable_def Let_def
           split: sum.splits option.splits if_splits)

theorem Bidirectional_constructor_trainable_witness:
  "trainable ex_layer = False \<and> Bidirectional_trainable ex_this0 = False \<and>
   Bidirectional_constructor ex_getClassName ex_getConfig ex_deserialize ex_this0
     (ex_config (Some ''concat'')) = (ex_bidirectional, None) \<and>
   Bidirectional_trainable ex_bidirectional = True"
  using Bidirectional_constructor_trainable [OF ex_constructor_concat] ex_constructor_concat
  by (simp add: ex_layer_def ex_this0_def Bidirectional_trainable_def)

section \<open>Wrapper and Bidirectional: getConfig\<close>



section \<open>Bidirectional: weights\<close>

text \<open>
  Claim C7, as stated, fails: it has \<^verbatim>\<open>setWeights\<close> followed by \<^verbatim>\<open>getWeights\<close> return
  every list of even length equal to the combined weight count of the clones. Each half
  goes through its clone's own \<^verbatim>\<open>setWeights\<close>, which validates it. Both clones hold one
  weight of shape \<open>[2]\<close>; a list of two tensors whose first has shape \<open>[3]\<close> is rejected
  with a \<^verbatim>\<open>ValueError\<close>, the wrapper is left as it was, and \<^verbatim>\<open>getWeights\<close> returns the
  old weights.
\<close>

theorem Bidirectional_setWeights_shape_counterexample:
  "even (length [Tensor [Num 3] 7, Tensor [Num 2] 8]) \<and>
   Bidirectional_getWeights ex_built = Inr [Tensor [Num 2] 1, Tensor [Num 2] 2] \<and>
   Bidirectional_setWeights ex_built [Tensor [Num 3] 7, Tensor [Num 2] 8] =
     (ex_built, Some (ValueError ''weights are not compatible with the layer'')) \<and>
   Bidirectional_getWeights ex_built \<noteq> Inr [Tensor [Num 3] 7, Tensor [Num 2] 8]"
  by (simp add: Bidirectional_setWeights_def Bidirectional_getWeights_def Layer_setWeights_def
        Layer_getWeights_def Layer_accepts_def Let_def ex_built_clones)

text \<open>
  Claim C7, amended. For every flat weight list of even length equal to the combined
  weight count of the two clones, of which the first half passes the forward clone's own
  validation and the rest the backward clone's, \<^verbatim>\<open>setWeights\<close> returns, and
  \<^verbatim>\<open>getWeights\<close> then returns the same list: the forward clone holds the first
  \<open>length ws div 2\<close> tensors, the backward clone the remainder, and \<^verbatim>\<open>getWeights\<close>
  concatenates forward then backward.
\<close>

theorem Bidirectional_setWeights_getWeights:
  assumes "forwardLayer this = Some f" and "backwardLayer this = Some b"
      and "even (length ws)"
      and "length ws = length (weights f) + length (weights b)"
      and "Layer_accepts f (take (length ws div 2) ws)"
      and "Layer_accepts b (drop (length ws div 2) ws)"
  shows "\<exists>this1. Bidirectional_setWeights this ws = (this1, None) \<and>
           Bidirectional_getWeights this1 = Inr ws \<and>
           map_option Layer_getWeights (forwardLayer this1) = Some (take (length ws div 2) ws) \<and>
           map_option Layer_getWeights (backwardLayer this1) = Some (drop (length ws div 2) ws)"
  using assms
  by (simp add: Bidirectional_setWeights_def Bidirectional_getWeights_def Layer_setWeights_def
        Layer_getWeights_def Let_def)

theorem Bidirectional_setWeights_getWeights_witness:
  "even (length [Tensor [Num 2] 7, Tensor [Num 2] 8]) \<and>
   Bidirectional_getWeights ex_built = Inr [Tensor [Num 2] 1, Tensor [Num 2] 2] \<and>
   (\<exists>this1. Bidirectional_setWeights ex_built [Tensor [Num 2] 7, Tensor [Num 2] 8] = (this1, None) \<and>
      Bidirectional_getWeights this1 = Inr [Tensor [Num 2] 7, Tensor [Num 2] 8])"
proof -
  let ?ws = "[Tensor [Num 2] 7, Tensor [Num 2] 8]"
  let ?f = "ex_layer\<lparr>name := ''forward_lstm'', built := True, weights := [Tensor [Num 2] 1]\<rparr>"
  let ?b = "ex_layer\<lparr>name := ''backward_lstm'', goBackwards := False, built := True,
                    weights := [Tensor [Num 2] 2]\<rparr>"
  have f: "forwardLayer ex_built = Some ?f" and b: "backwardLayer ex_built = Some ?b"
    using ex_built_clones by simp_all
  have e: "even (length ?ws)" by simp
  have n: "length ?ws = length (weights ?f) + length (weights ?b)" by simp
  have af: "Layer_accepts ?f (take (length ?ws div 2) ?ws)" by (simp add: Layer_accepts_def)
  have ab: "Layer_accepts ?b (drop (length ?ws div 2) ?ws)" by (simp add: Layer_accepts_def)
  have g: "Bidirectional_getWeights ex_built = Inr [Tensor [Num 2] 1, Tensor [Num 2] 2]"
    by (simp add: Bidirectional_getWeights_def Layer_getWeights_def f b)
  show ?thesis
    using Bidirectional_setWeights_getWeights [OF f b e n af ab] e g by auto
qed

section \<open>Bidirectional: apply\<close>

lemma mixed_all_symbolic:
  "list_all instanceof_SymbolicTensor ts \<Longrightarrow> mixed True ts = False"
  by (induction ts) auto

text \<open>
  Claim C4. Take a call of \<^verbatim>\<open>Bidirectional.apply\<close> whose standardised arguments carry a
  non-empty, even-length list of initial states, all symbolic, and no constants, on a
  wrapper with both clones. The \<^verbatim>\<open>Layer.apply\<close> it makes receives the wrapper with the
  input specification widened by one spec per state (\<open>this1\<close>), and when that call
  returns, \<^verbatim>\<open>apply\<close> returns its output and leaves the wrapper with the input
  specification it had before the call.
\<close>

theorem Bidirectional_apply_restores_inputSpec:
  assumes std: "standardizeArgs inputs
                  (case kwargs of None \<Rightarrow> None | Some kw \<Rightarrow> get_property kw ''initialState'')
                  (case kwargs of None \<Rightarrow> None | Some kw \<Rightarrow> get_property kw ''constants'')
                  (numConstants this) = Inr sd"
      and args: "std_inputs sd = One x \<and> std_initialState sd = Some states \<or>
                 std_inputs sd = Many (x # states)"
      and noconst: "std_constants sd = None"
      and nonempty: "states \<noteq> []"
      and even: "even (length states)"
      and symbolic: "list_all instanceof_SymbolicTensor states"
      and fwd: "forwardLayer this = Some f"
      and bwd: "backwardLayer this = Some b"
      and specs: "stateSpecs = map (\<lambda>state. InputSpec None (Some (shape state))) states"
      and widened: "this1 = this
             \<lparr>forwardLayer := Some (f\<lparr>stateSpec := take (length states div 2) stateSpecs\<rparr>),
              backwardLayer := Some (b\<lparr>stateSpec := drop (length states div 2) stateSpecs\<rparr>),
              inputSpec := inputSpec this @ stateSpecs\<rparr>"
      and sup: "super_apply this1 (Array (Some x # map Some states))
                  (set_property ''initialState'' (KTensors states)
                     (case kwargs of None \<Rightarrow> [] | Some kw \<Rightarrow> kw)) = (this2, Inr out)"
  shows "Bidirectional_apply standardizeArgs super_apply this inputs kwargs =
           (this2\<lparr>inputSpec := inputSpec this\<rparr>, Inr out) \<and>
         inputSpec this1 = inputSpec this @ stateSpecs \<and>
         inputSpec (fst (Bidirectional_apply standardizeArgs super_apply this inputs kwargs)) =
           inputSpec this"
proof -
  obtain s ss where st: "states = s # ss"
    using nonempty by (cases states) auto
  have sym: "instanceof_SymbolicTensor s"
    using symbolic st by simp
  have nm: "mixed True states = False"
    using symbolic by (rule mixed_all_symbolic)
  have ev: "length states mod 2 = 0"
    using even by presburger
  have add: "apply_additional super_apply
               (this\<lparr>forwardLayer := Some (f\<lparr>stateSpec := take (length states div 2) stateSpecs\<rparr>),
                     backwardLayer := Some (b\<lparr>stateSpec := drop (length states div 2) stateSpecs\<rparr>)\<rparr>)
               (Some x)
               (set_property ''initialState'' (KTensors states)
                  (case kwargs of None \<Rightarrow> [] | Some kw \<Rightarrow> kw))
               None states stateSpecs =
             (this2\<lparr>inputSpec := inputSpec this\<rparr>, Inr out)"
    using sup nm sym by (simp add: apply_additional_def st widened)
  have "Bidirectional_apply standardizeArgs super_apply this inputs kwargs =
          (this2\<lparr>inputSpec := inputSpec this\<rparr>, Inr out)"
    using args
  proof
    assume "std_inputs sd = One x \<and> std_initialState sd = Some states"
    then show ?thesis
      using std noconst nonempty ev fwd bwd add
      by (simp add: Bidirectional_apply_def Let_def specs)
  next
    assume "std_inputs sd = Many (x # states)"
    then show ?thesis
      using std noconst nonempty ev fwd bwd add
      by (simp add: Bidirectional_apply_def Let_def specs)
  qed
  then show ?thesis
    by (simp add: widened)
qed

theorem Bidirectional_apply_restores_inputSpec_witness:
  "list_all instanceof_SymbolicTensor
     [SymbolicTensor [Null, Num 3] 1, SymbolicTensor [Null, Num 3] 2] \<and>
   inputSpec ex_bidirectional = [InputSpec (Some 3) None] \<and>
   snd (Bidirectional_apply ex_standardizeArgs ex_super_apply ex_bidirectional
          (Many [SymbolicTensor [Null, Num 5, Num 4] 0,
                 SymbolicTensor [Null, Num 3] 1, SymbolicTensor [Null, Num 3] 2]) None) =
     Inr [InputSpec (Some 3) None, InputSpec None (Some [Null, Num 3]),
          InputSpec None (Some [Null, Num 3])] \<and>
   inputSpec (fst (Bidirectional_apply ex_standardizeArgs ex_super_apply ex_bidirectional
          (Many [SymbolicTensor [Null, Num 5, Num 4] 0,
                 SymbolicTensor [Null, Num 3] 1, SymbolicTensor [Null, Num 3] 2]) None)) =
     [InputSpec (Some 3) None]"
proof -
  let ?x = "SymbolicTensor [Null, Num 5, Num 4] 0"
  let ?states = "[SymbolicTensor [Null, Num 3] 1, SymbolicTensor [Null, Num 3] 2]"
  let ?specs = "[InputSpec None (Some [Null, Num 3]), InputSpec None (Some [Null, Num 3])]"
  let ?f = "ex_layer\<lparr>name := ''forward_lstm''\<rparr>"
  let ?b = "ex_layer\<lparr>name := ''backward_lstm'', goBackwards := False\<rparr>"
  let ?sd = "\<lparr>std_inputs = One ?x, std_initialState = Some ?states, std_constants = None\<rparr>"
  let ?this1 = "ex_bidirectional
             \<lparr>forwardLayer := Some (?f\<lparr>stateSpec := take (length ?states div 2) ?specs\<rparr>),
              backwardLayer := Some (?b\<lparr>stateSpec := drop (length ?states div 2) ?specs\<rparr>),
              inputSpec := inputSpec ex_bidirectional @ ?specs\<rparr>"
  have std: "ex_standardizeArgs (Many (?x # ?states))
               (case None :: Kwargs option of None \<Rightarrow> None | Some kw \<Rightarrow> get_property kw ''initialState'')
               (case None :: Kwargs option of None \<Rightarrow> None | Some kw \<Rightarrow> get_property kw ''constants'')
               (numConstants ex_bidirectional) = Inr ?sd"
    by (simp add: ex_standardizeArgs_def)
  have args: "std_inputs ?sd = One ?x \<and> std_initialState ?sd = Some ?states \<or>
              std_inputs ?sd = Many (?x # ?states)"
    by simp
  have noconst: "std_constants ?sd = None" by simp
  have nonempty: "?states \<noteq> []" by simp
  have even: "even (length ?states)" by simp
  have symbolic: "list_all instanceof_SymbolicTensor ?states" by simp
  have fwd: "forwardLayer ex_bidirectional = Some ?f"
    and bwd: "backwardLayer ex_bidirectional = Some ?b"
    by (simp_all add: ex_bidirectional_value)
  have specs: "?specs = map (\<lambda>state. InputSpec None (Some (shape state))) ?states" by simp
  have spec0: "inputSpec ex_bidirectional = [InputSpec (Some 3) None]"
    by (simp add: ex_bidirectional_value)
  have sup: "ex_super_apply ?this1 (Array (Some ?x # map Some ?states))
               (set_property ''initialState'' (KTensors ?states)
                  (case None :: Kwargs option of None \<Rightarrow> [] | Some kw \<Rightarrow> kw)) =
             (?this1\<lparr>built := True\<rparr>, Inr (inputSpec ex_bidirectional @ ?specs))"
    by (simp add: ex_super_apply_def)
  show ?thesis
    using Bidirectional_apply_restores_inputSpec
      [where standardizeArgs = ex_standardizeArgs and super_apply = ex_super_apply
         and kwargs = None and this = ex_bidirectional and sd = ?sd and x = ?x
         and states = ?states and stateSpecs = ?specs and f = ?f and b = ?b
         and ?this1.0 = ?this1 and ?this2.0 = "?this1\<lparr>built := True\<rparr>"
         and out = "inputSpec ex_bidirectional @ ?specs" and inputs = "Many (?x # ?states)",
       OF std args noconst nonempty even symbolic fwd bwd specs refl sup]
      symbolic spec0
    by simp
qed

section \<open>Bidirectional: call\<close>

lemma Bidirectional_call_layers_initialState:
  assumes "is_null (get_property kwargs ''mask'')"
      and "get_property kwargs ''initialState'' = Some (KTensors states)"
      and "forwardLayer this = Some f"
  shows "Bidirectional_call_layers layer_call this inputs kwargs =
           (let kwargs1 = Object_assign kwargs
                            [(''initialState'', KTensors (take (length states div 2) states))];
                kwargs2 = Object_assign kwargs1
                            [(''initialState'', KTensors (drop (length states div 2) states))]
            in case layer_call f inputs kwargs1 of
                 Inl e \<Rightarrow> (kwargs1, Inl e)
               | Inr y \<Rightarrow>
                   (case layer_call f inputs kwargs2 of
                      Inl e \<Rightarrow> (kwargs2, Inl e)
                    | Inr yRev \<Rightarrow> (kwargs2, Inr (y, yRev))))"
  using assms by (simp add: Bidirectional_call_layers_def Let_def cong: sum.case_cong)

text \<open>
  Claim C1 says that with an initial state list the backward output comes from
  \<^verbatim>\<open>backwardLayer.call\<close> on the last half of the states. Line 479 calls
  \<^verbatim>\<open>this.forwardLayer.call\<close> a second time instead. On the concrete wrapper, with the
  states \<open>[s1, s2]\<close>, both outputs are reported by the layer named \<^verbatim>\<open>forward_lstm\<close>, the
  second from \<open>[s2]\<close>; the backward clone on the same inputs would have reported
  \<^verbatim>\<open>backward_lstm\<close>. Without an initial state (lines 472-473) the second output does come
  from the backward clone.
\<close>

theorem Bidirectional_call_initialState_runs_forwardLayer_twice:
  "Bidirectional_call_layers ex_call ex_bidirectional (One (Tensor [Num 2, Num 5, Num 4] 10))
       [(''initialState'', KTensors [Tensor [Num 2, Num 3] 11, Tensor [Num 2, Num 3] 12])] =
     ([(''initialState'', KTensors [Tensor [Num 2, Num 3] 12])],
      Inr ((''forward_lstm'', One (Tensor [Num 2, Num 5, Num 4] 10),
              Some (KTensors [Tensor [Num 2, Num 3] 11])),
           (''forward_lstm'', One (Tensor [Num 2, Num 5, Num 4] 10),
              Some (KTensors [Tensor [Num 2, Num 3] 12])))) \<and>
   map_option (\<lambda>b. ex_call b (One (Tensor [Num 2, Num 5, Num 4] 10))
                    [(''initialState'', KTensors [Tensor [Num 2, Num 3] 12])])
       (backwardLayer ex_bidirectional) =
     Some (Inr (''backward_lstm'', One (Tensor [Num 2, Num 5, Num 4] 10),
                 Some (KTensors [Tensor [Num 2, Num 3] 12]))) \<and>
   Bidirectional_call_layers ex_call ex_bidirectional (One (Tensor [Num 2, Num 5, Num 4] 10)) [] =
     ([], Inr ((''forward_lstm'', One (Tensor [Num 2, Num 5, Num 4] 10), None),
               (''backward_lstm'', One (Tensor [Num 2, Num 5, Num 4] 10), None)))"
  by (simp add: Bidirectional_call_layers_def Let_def ex_call_def ex_bidirectional_value
        get_property_def ex_layer_def)

text \<open>
  Claim C9. When \<^verbatim>\<open>Bidirectional.call\<close> returns from a call whose options carried an
  initial state list, the caller's options object is the one it passed with
  \<^verbatim>\<open>initialState\<close> overwritten twice, first by the forward half and then by the backward
  half: \<^verbatim>\<open>initialState\<close> is the backward half \<^verbatim>\<open>states.slice(states.length / 2)\<close>,
  which differs from the supplied list as soon as that has two states or more, and every
  other option is as it was. (For a list of fewer than two states the backward half is a
  new array with the elements of the whole list.)
\<close>

theorem Bidirectional_call_leaves_backward_half_in_kwargs:
  assumes ret: "Bidirectional_call layer_call merge this inputs kwargs = (kwargs1, Inr out)"
      and st: "get_property kwargs ''initialState'' = Some (KTensors states)"
  shows "kwargs1 =
           Object_assign
             (Object_assign kwargs [(''initialState'', KTensors (take (length states div 2) states))])
             [(''initialState'', KTensors (drop (length states div 2) states))] \<and>
         get_property kwargs1 ''initialState'' =
           Some (KTensors (drop (length states div 2) states)) \<and>
         (2 \<le> length states \<longrightarrow>
            get_property kwargs1 ''initialState'' \<noteq> get_property kwargs ''initialState'') \<and>
         (\<forall>k. k \<noteq> ''initialState'' \<longrightarrow> get_property kwargs1 k = get_property kwargs k)"
proof -
  let ?kw1 = "Object_assign kwargs [(''initialState'', KTensors (take (length states div 2) states))]"
  let ?kw2 = "Object_assign ?kw1 [(''initialState'', KTensors (drop (length states div 2) states))]"
  have mask: "is_null (get_property kwargs ''mask'')"
    using ret
    by (auto simp add: Bidirectional_call_def Bidirectional_call_layers_def
             split: if_splits prod.splits sum.splits)
  have "forwardLayer this \<noteq> None"
    using ret st mask
    by (auto simp add: Bidirectional_call_def Bidirectional_call_layers_def Let_def
             split: prod.splits sum.splits option.splits)
  then obtain f where f: "forwardLayer this = Some f" by auto
  have eq: "kwargs1 = ?kw2"
    using ret
    by (auto simp add: Bidirectional_call_def Bidirectional_call_layers_initialState [OF mask st f]
          Let_def split: prod.splits sum.splits)
  have val: "get_property ?kw2 ''initialState'' = Some (KTensors (drop (length states div 2) states))"
    by (simp add: get_set_property_same)
  have differs: "2 \<le> length states \<Longrightarrow> drop (length states div 2) states \<noteq> states"
  proof
    assume two: "2 \<le> length states" and same: "drop (length states div 2) states = states"
    have "length (drop (length states div 2) states) = length states - length states div 2"
      by simp
    with same have "length states = length states - length states div 2" by simp
    with two show False by presburger
  qed
  have frame: "\<forall>k. k \<noteq> ''initialState'' \<longrightarrow> get_property ?kw2 k = get_property kwargs k"
    by (simp add: get_set_property_other)
  show ?thesis
    using eq val differs frame st by simp
qed

theorem Bidirectional_call_leaves_backward_half_in_kwargs_witness:
  "get_property [(''initialState'', KTensors [Tensor [Num 2, Num 3] 11, Tensor [Num 2, Num 3] 12])]
       ''initialState'' = Some (KTensors [Tensor [Num 2, Num 3] 11, Tensor [Num 2, Num 3] 12]) \<and>
   (\<exists>out. snd (Bidirectional_call ex_call ex_merge ex_bidirectional
                  (One (Tensor [Num 2, Num 5, Num 4] 10))
                  [(''initialState'', KTensors [Tensor [Num 2, Num 3] 11, Tensor [Num 2, Num 3] 12])]) =
            Inr out) \<and>
   get_property
     (fst (Bidirectional_call ex_call ex_merge ex_bidirectional
             (One (Tensor [Num 2, Num 5, Num 4] 10))
             [(''initialState'', KTensors [Tensor [Num 2, Num 3] 11, Tensor [Num 2, Num 3] 12])]))
     ''initialState'' = Some (KTensors [Tensor [Num 2, Num 3] 12])"
proof -
  let ?kw = "[(''initialState'', KTensors [Tensor [Num 2, Num 3] 11, Tensor [Num 2, Num 3] 12])]"
  let ?x = "One (Tensor [Num 2, Num 5, Num 4] 10)"
  let ?y = "(''forward_lstm'', ?x, Some (KTensors [Tensor [Num 2, Num 3] 11]))"
  let ?yRev = "(''forward_lstm'', ?x, Some (KTensors [Tensor [Num 2, Num 3] 12]))"
  have st: "get_property ?kw ''initialState'' =
              Some (KTensors [Tensor [Num 2, Num 3] 11, Tensor [Num 2, Num 3] 12])"
    by (simp add: get_property_def)
  have ret: "Bidirectional_call ex_call ex_merge ex_bidirectional ?x ?kw =
               ([(''initialState'', KTensors [Tensor [Num 2, Num 3] 12])], Inr [?y, ?yRev])"
    by (simp add: Bidirectional_call_def ex_call_with_states ex_merge_def)
  show ?thesis
    using Bidirectional_call_leaves_backward_half_in_kwargs [OF ret st] st ret
    by simp
qed

end
